theory Spec2Isabelle
  imports Complex_Main "HOL-Library.AList" "HOL-Library.Char_ord" "HOL-Library.List_Lexorder"
    "HOL-Library.Sublist"
begin

section \<open>Values, columns and tables\<close>

text \<open>
  The module \<^verbatim>\<open>src/components/data_transformation.py\<close> works on pandas tables.
  A floating-point cell is modelled as an exact rational, a missing value (\<open>NaN\<close>) or
  one of the two infinities that a division by zero yields in numpy; rounding, overflow
  and the sign of zero are not modelled. Integer and floating-point columns are both
  numeric columns.
\<close>

datatype flt = NaN | Fin rat | PInf | NInf

datatype cell = Num flt | Str string

text \<open>A column is either numeric or of dtype \<open>object\<close> (arbitrary Python values).\<close>

datatype column = NumCol "flt list" | ObjCol "cell list"

record dataframe =
  nrows :: nat
  cols :: "(string \<times> column) list"

datatype exn = KeyError string | TypeError | ValueError | CustomException exn

type_synonym 'a result = "exn + 'a"

definition bind_res :: "'a result \<Rightarrow> ('a \<Rightarrow> 'b result) \<Rightarrow> 'b result" where
  "bind_res m f = (case m of Inl e \<Rightarrow> Inl e | Inr x \<Rightarrow> f x)"

subsection \<open>Floating-point arithmetic without rounding\<close>

fun fl_neg :: "flt \<Rightarrow> flt" where
  "fl_neg NaN = NaN"
| "fl_neg (Fin a) = Fin (- a)"
| "fl_neg PInf = NInf"
| "fl_neg NInf = PInf"

fun fl_add :: "flt \<Rightarrow> flt \<Rightarrow> flt" where
  "fl_add NaN _ = NaN"
| "fl_add _ NaN = NaN"
| "fl_add (Fin a) (Fin b) = Fin (a + b)"
| "fl_add PInf NInf = NaN"
| "fl_add NInf PInf = NaN"
| "fl_add PInf _ = PInf"
| "fl_add NInf _ = NInf"
| "fl_add (Fin a) PInf = PInf"
| "fl_add (Fin a) NInf = NInf"

definition fl_sub :: "flt \<Rightarrow> flt \<Rightarrow> flt" where
  "fl_sub a b = fl_add a (fl_neg b)"

text \<open>Division never raises: a zero denominator gives an infinity, or \<open>NaN\<close> for \<open>0 / 0\<close>.\<close>

fun fl_div :: "flt \<Rightarrow> flt \<Rightarrow> flt" where
  "fl_div NaN _ = NaN"
| "fl_div _ NaN = NaN"
| "fl_div (Fin a) (Fin b) =
     (if b \<noteq> 0 then Fin (a / b) else if a = 0 then NaN else if 0 < a then PInf else NInf)"
| "fl_div (Fin a) PInf = Fin 0"
| "fl_div (Fin a) NInf = Fin 0"
| "fl_div PInf (Fin b) = (if 0 \<le> b then PInf else NInf)"
| "fl_div NInf (Fin b) = (if 0 \<le> b then NInf else PInf)"
| "fl_div PInf _ = NaN"
| "fl_div NInf _ = NaN"

text \<open>Comparisons with \<open>NaN\<close> are false.\<close>

fun fl_gt :: "flt \<Rightarrow> flt \<Rightarrow> bool" where
  "fl_gt NaN _ = False"
| "fl_gt _ NaN = False"
| "fl_gt (Fin a) (Fin b) = (b < a)"
| "fl_gt PInf PInf = False"
| "fl_gt PInf _ = True"
| "fl_gt NInf _ = False"
| "fl_gt (Fin a) PInf = False"
| "fl_gt (Fin a) NInf = True"

definition fl_le :: "flt \<Rightarrow> flt \<Rightarrow> bool" where
  "fl_le a b = (a \<noteq> NaN \<and> b \<noteq> NaN \<and> \<not> fl_gt a b)"

definition fillna :: "flt \<Rightarrow> flt \<Rightarrow> flt" where
  "fillna d x = (if x = NaN then d else x)"


definition of_bool_int :: "bool \<Rightarrow> flt" where
  \<comment> \<open>\<^verbatim>\<open>.astype(int)\<close> on a boolean column\<close>
  "of_bool_int b = (if b then Fin 1 else Fin 0)"

definition eps :: flt where
  "eps = Fin (1 / 100000)"

subsection \<open>Sorting and medians\<close>

fun insort_by :: "('a \<Rightarrow> 'a \<Rightarrow> bool) \<Rightarrow> 'a \<Rightarrow> 'a list \<Rightarrow> 'a list" where
  "insort_by le x [] = [x]"
| "insort_by le x (y # ys) = (if le x y then x # y # ys else y # insort_by le x ys)"

definition sort_by :: "('a \<Rightarrow> 'a \<Rightarrow> bool) \<Rightarrow> 'a list \<Rightarrow> 'a list" where
  "sort_by le xs = foldr (insort_by le) xs []"

text \<open>
  \<^verbatim>\<open>Series.median()\<close> skips missing values; with none left it is \<open>NaN\<close>; with an even
  number of values it is the mean of the two middle ones.
\<close>

definition median :: "flt list \<Rightarrow> flt" where
  "median xs =
     (let ys = sort_by fl_le (filter (\<lambda>x. x \<noteq> NaN) xs); n = length ys
      in if n = 0 then NaN
         else if odd n then ys ! (n div 2)
         else fl_div (fl_add (ys ! (n div 2 - 1)) (ys ! (n div 2))) (Fin 2))"

subsection \<open>Table primitives\<close>

definition col_len :: "column \<Rightarrow> nat" where
  "col_len c = (case c of NumCol xs \<Rightarrow> length xs | ObjCol cs \<Rightarrow> length cs)"

definition cells :: "column \<Rightarrow> cell list" where
  "cells c = (case c of NumCol xs \<Rightarrow> map Num xs | ObjCol cs \<Rightarrow> cs)"

definition names :: "dataframe \<Rightarrow> string list" where
  "names df = map fst (cols df)"

definition wf :: "dataframe \<Rightarrow> bool" where
  \<comment> \<open>every column has one cell per row of the index\<close>
  "wf df = list_all (\<lambda>(n, c). col_len c = nrows df) (cols df)"

definition get_col :: "string \<Rightarrow> dataframe \<Rightarrow> column result" where
  \<comment> \<open>\<^verbatim>\<open>df[name]\<close>\<close>
  "get_col n df = (case map_of (cols df) n of None \<Rightarrow> Inl (KeyError n) | Some c \<Rightarrow> Inr c)"

fun the_flt :: "cell \<Rightarrow> flt" where
  "the_flt (Num x) = x"
| "the_flt (Str s) = NaN"

fun is_str :: "cell \<Rightarrow> bool" where
  "is_str (Num x) = False"
| "is_str (Str s) = True"

definition as_num :: "column \<Rightarrow> (flt list) result" where
  \<comment> \<open>arithmetic and ordering on a column: a string cell raises \<^verbatim>\<open>TypeError\<close>\<close>
  "as_num c =
     (case c of
        NumCol xs \<Rightarrow> Inr xs
      | ObjCol cs \<Rightarrow> if list_ex is_str cs then Inl TypeError else Inr (map the_flt cs))"

definition set_col :: "string \<Rightarrow> column \<Rightarrow> dataframe \<Rightarrow> dataframe result" where
  \<comment> \<open>\<^verbatim>\<open>df[name] = values\<close>: replaces the column in place, or appends it\<close>
  "set_col n c df =
     (if col_len c \<noteq> nrows df then Inl ValueError
      else Inr (df\<lparr>cols := AList.update n c (cols df)\<rparr>))"

definition drop_columns :: "string list \<Rightarrow> dataframe \<Rightarrow> dataframe result" where
  \<comment> \<open>\<^verbatim>\<open>df.drop(columns=ns)\<close>\<close>
  "drop_columns ns df =
     (case filter (\<lambda>n. n \<notin> set (names df)) ns of
        m # _ \<Rightarrow> Inl (KeyError m)
      | [] \<Rightarrow> Inr (df\<lparr>cols := filter (\<lambda>(n, c). n \<notin> set ns) (cols df)\<rparr>))"

subsection \<open>Category statistics and one-hot encoding\<close>

definition present :: "cell \<Rightarrow> bool" where
  "present c = (c \<noteq> Num NaN)"

fun unique :: "'a list \<Rightarrow> 'a list" where
  "unique [] = []"
| "unique (x # xs) = x # filter (\<lambda>y. y \<noteq> x) (unique xs)"

text \<open>
  \<^verbatim>\<open>value_counts()\<close> drops missing values and lists the distinct values by falling
  count; values of equal count are kept in order of first appearance.
\<close>

definition value_counts :: "cell list \<Rightarrow> (cell \<times> nat) list" where
  "value_counts cs =
     sort_key (\<lambda>(v, c). - int c) (map (\<lambda>v. (v, count_list cs v)) (unique (filter present cs)))"

definition nlargest :: "nat \<Rightarrow> (cell \<times> nat) list \<Rightarrow> (cell \<times> nat) list" where
  "nlargest k vc = take k (sort_key (\<lambda>(v, c). - int c) vc)"

definition top_values :: "nat \<Rightarrow> column \<Rightarrow> cell list" where
  \<comment> \<open>\<^verbatim>\<open>df[col].value_counts().nlargest(k).index\<close>\<close>
  "top_values k c = map fst (nlargest k (value_counts (cells c)))"

definition where_else_minus1 :: "cell list \<Rightarrow> column \<Rightarrow> column" where
  \<comment> \<open>\<^verbatim>\<open>np.where(df[col].isin(top), df[col], -1)\<close>\<close>
  "where_else_minus1 tops c =
     (case c of
        NumCol xs \<Rightarrow> NumCol (map (\<lambda>x. if Num x \<in> set tops then x else Fin (- 1)) xs)
      | ObjCol cs \<Rightarrow> ObjCol (map (\<lambda>v. if v \<in> set tops then v else Num (Fin (- 1))) cs))"

definition where_else_other :: "(flt \<Rightarrow> string) \<Rightarrow> cell list \<Rightarrow> column \<Rightarrow> column" where
  \<comment> \<open>\<^verbatim>\<open>np.where(df[col].isin(top), df[col], "other")\<close>: a numeric column
      is coerced to strings, \<open>fmt\<close> being the text numpy gives a number\<close>
  "where_else_other fmt tops c =
     (case c of
        NumCol xs \<Rightarrow> ObjCol (map (\<lambda>x. if Num x \<in> set tops then Str (fmt x) else Str ''other'') xs)
      | ObjCol cs \<Rightarrow> ObjCol (map (\<lambda>v. if v \<in> set tops then v else Str ''other'') cs))"

fun cell_le :: "cell \<Rightarrow> cell \<Rightarrow> bool" where
  "cell_le (Num a) (Num b) = fl_le a b"
| "cell_le (Num a) (Str t) = True"
| "cell_le (Str s) (Num b) = False"
| "cell_le (Str s) (Str t) = (s \<le> t)"

definition levels :: "column \<Rightarrow> cell list" where
  \<comment> \<open>the categories of a column: its distinct present values, sorted\<close>
  "levels c = sort_by cell_le (unique (filter present (cells c)))"

fun level_str :: "(flt \<Rightarrow> string) \<Rightarrow> cell \<Rightarrow> string" where
  "level_str fmt (Num x) = fmt x"
| "level_str fmt (Str s) = s"

definition indicator :: "cell \<Rightarrow> column \<Rightarrow> column" where
  "indicator l c = NumCol (map (\<lambda>v. of_bool_int (v = l)) (cells c))"

definition dummies :: "(flt \<Rightarrow> string) \<Rightarrow> string \<Rightarrow> column \<Rightarrow> (string \<times> column) list" where
  \<comment> \<open>one indicator column per level, the first level dropped (\<^verbatim>\<open>drop_first=True\<close>)\<close>
  "dummies fmt n c = map (\<lambda>l. (n @ ''_'' @ level_str fmt l, indicator l c)) (tl (levels c))"

definition dummy_columns ::
  "(flt \<Rightarrow> string) \<Rightarrow> string list \<Rightarrow> dataframe \<Rightarrow> (string \<times> column) list" where
  "dummy_columns fmt ns df =
     concat (map (\<lambda>n. case map_of (cols df) n of None \<Rightarrow> [] | Some c \<Rightarrow> dummies fmt n c) ns)"

definition get_dummies :: "(flt \<Rightarrow> string) \<Rightarrow> string list \<Rightarrow> dataframe \<Rightarrow> dataframe result" where
  \<comment> \<open>\<^verbatim>\<open>pd.get_dummies(df, columns=ns, drop_first=True)\<close>: the encoded columns are
      removed and their indicator columns appended\<close>
  "get_dummies fmt ns df =
     (case filter (\<lambda>n. n \<notin> set (names df)) ns of
        m # _ \<Rightarrow> Inl (KeyError m)
      | [] \<Rightarrow>
          Inr (df\<lparr>cols := filter (\<lambda>(n, c). n \<notin> set ns) (cols df) @ dummy_columns fmt ns df\<rparr>))"

section \<open>The transformation steps\<close>

text \<open>
  Each statement of \<^verbatim>\<open>feature_engineering\<close> is one step from a table to a table or an
  exception. Logging has no effect on the result and is left out.
\<close>

definition run_steps :: "(dataframe \<Rightarrow> dataframe result) list \<Rightarrow> dataframe \<Rightarrow> dataframe result" where
  "run_steps ss df = foldl bind_res (Inr df) ss"

subsection \<open>Room count\<close>

definition roomcnt_fixed :: "flt \<Rightarrow> flt \<Rightarrow> flt \<Rightarrow> flt" where
  \<comment> \<open>\<^verbatim>\<open>np.where(roomcnt > 0, roomcnt, bedroomcnt + bathroomcnt + 1)\<close> on one row\<close>
  "roomcnt_fixed room bed bath =
     (if fl_gt room (Fin 0) then room else fl_add (fl_add bed bath) (Fin 1))"

definition fix_room_count :: "dataframe \<Rightarrow> dataframe result" where
  "fix_room_count df =
     bind_res (get_col ''roomcnt'' df) (\<lambda>c_room.
     bind_res (as_num c_room) (\<lambda>room.
     bind_res (get_col ''bedroomcnt'' df) (\<lambda>c_bed.
     bind_res (get_col ''bathroomcnt'' df) (\<lambda>c_bath.
     bind_res (as_num c_bed) (\<lambda>bed.
     bind_res (as_num c_bath) (\<lambda>bath.
     bind_res (set_col ''roomcnt_fixed''
                 (NumCol (map (\<lambda>(r, b, ba). roomcnt_fixed r b ba) (zip room (zip bed bath)))) df)
       (drop_columns [''roomcnt''])))))))"

subsection \<open>Garage area\<close>

fun cell_eq0 :: "cell \<Rightarrow> bool" where
  "cell_eq0 (Num x) = (x = Fin 0)"
| "cell_eq0 (Str s) = False"

definition mark_garage :: "cell \<Rightarrow> flt \<Rightarrow> cell" where
  \<comment> \<open>\<^verbatim>\<open>df.loc[(sqft == 0) & (carcnt > 0), "garagetotalsqft"] = np.nan\<close> on one row\<close>
  "mark_garage sqft carcnt = (if cell_eq0 sqft \<and> fl_gt carcnt (Fin 0) then Num NaN else sqft)"

definition group_values :: "flt list \<Rightarrow> flt list \<Rightarrow> flt \<Rightarrow> flt list" where
  "group_values keys vals k = map snd (filter (\<lambda>(k', v). k' = k) (zip keys vals))"

text \<open>
  \<^verbatim>\<open>groupby(key)[col].transform(lambda x: x.fillna(x.median()))\<close>: rows whose key is
  missing belong to no group and come back missing.
\<close>

definition fillna_group_median :: "flt list \<Rightarrow> flt list \<Rightarrow> flt list" where
  "fillna_group_median keys vals =
     map (\<lambda>(k, v). if k = NaN then NaN else fillna (median (group_values keys vals k)) v)
       (zip keys vals)"

definition clean_garage_sqft :: "dataframe \<Rightarrow> dataframe result" where
  "clean_garage_sqft df =
     bind_res (get_col ''garagetotalsqft'' df) (\<lambda>c_sqft.
     bind_res (get_col ''garagecarcnt'' df) (\<lambda>c_cnt.
     bind_res (as_num c_cnt) (\<lambda>cnt.
       let marked = map (\<lambda>(v, k). mark_garage v k) (zip (cells c_sqft) cnt)
       in if list_ex (\<lambda>(v, k). k \<noteq> NaN \<and> is_str v) (zip marked cnt) then Inl TypeError
          else set_col ''garagetotalsqft''
                 (NumCol (fillna_group_median cnt (map the_flt marked))) df)))"

subsection \<open>Engineered features\<close>

definition ratio :: "flt \<Rightarrow> flt \<Rightarrow> flt" where
  \<comment> \<open>\<^verbatim>\<open>a / (b + 1e-5)\<close>\<close>
  "ratio a b = fl_div a (fl_add b eps)"

definition add_ratio :: "string \<Rightarrow> string \<Rightarrow> string \<Rightarrow> dataframe \<Rightarrow> dataframe result" where
  \<comment> \<open>\<^verbatim>\<open>df[dst] = df[a] / (df[b] + 1e-5)\<close>\<close>
  "add_ratio dst a b df =
     bind_res (get_col a df) (\<lambda>c_a.
     bind_res (get_col b df) (\<lambda>c_b.
     bind_res (as_num c_b) (\<lambda>ys.
     bind_res (as_num c_a) (\<lambda>xs.
       set_col dst (NumCol (map2 ratio xs ys)) df))))"

definition add_age_of_home :: "dataframe \<Rightarrow> dataframe result" where
  \<comment> \<open>\<^verbatim>\<open>df["age_of_home"] = 2025 - df["yearbuilt"]\<close>\<close>
  "add_age_of_home df =
     bind_res (get_col ''yearbuilt'' df) (\<lambda>c.
     bind_res (as_num c) (\<lambda>ys.
       set_col ''age_of_home'' (NumCol (map (fl_sub (Fin 2025)) ys)) df))"

definition feature_steps :: "(dataframe \<Rightarrow> dataframe result) list" where
  "feature_steps =
     [add_ratio ''price_per_sqft'' ''taxvaluedollarcnt'' ''calculatedfinishedsquarefeet'',
      add_age_of_home,
      add_ratio ''bath_per_bed'' ''bathroomcnt'' ''bedroomcnt'',
      add_ratio ''rooms_per_sqft'' ''roomcnt_fixed'' ''calculatedfinishedsquarefeet'',
      add_ratio ''garage_sqft_ratio'' ''garagetotalsqft'' ''calculatedfinishedsquarefeet'']"

subsection \<open>Binary flags\<close>

definition multi_unit :: "flt \<Rightarrow> flt" where
  "multi_unit unitcnt = of_bool_int (fl_gt unitcnt (Fin 1))"

definition has_garage :: "flt \<Rightarrow> flt \<Rightarrow> flt" where
  "has_garage carcnt sqft =
     of_bool_int (fl_gt (fillna (Fin 0) carcnt) (Fin 0) \<or> fl_gt (fillna (Fin 0) sqft) (Fin 0))"

definition add_multi_unit :: "dataframe \<Rightarrow> dataframe result" where
  "add_multi_unit df =
     bind_res (get_col ''unitcnt'' df) (\<lambda>c.
     bind_res (as_num c) (\<lambda>us.
       set_col ''multi_unit'' (NumCol (map multi_unit us)) df))"

definition add_has_garage :: "dataframe \<Rightarrow> dataframe result" where
  "add_has_garage df =
     bind_res (get_col ''garagecarcnt'' df) (\<lambda>c_cnt.
     bind_res (as_num c_cnt) (\<lambda>cnt.
     bind_res (get_col ''garagetotalsqft'' df) (\<lambda>c_sqft.
     bind_res (as_num c_sqft) (\<lambda>sqft.
       set_col ''has_garage'' (NumCol (map2 has_garage cnt sqft)) df))))"

subsection \<open>Categorical encodings\<close>

definition encode_top_minus1 :: "(flt \<Rightarrow> string) \<Rightarrow> string \<times> nat \<Rightarrow> dataframe \<Rightarrow> dataframe result" where
  \<comment> \<open>the body of the loop over the three region columns\<close>
  "encode_top_minus1 fmt = (\<lambda>(col, k) df.
     bind_res (get_col col df) (\<lambda>c.
     bind_res (set_col (col @ ''_top'') (where_else_minus1 (top_values k c) c) df)
       (get_dummies fmt [col @ ''_top''])))"

definition encode_top_other ::
  "(flt \<Rightarrow> string) \<Rightarrow> string \<Rightarrow> nat \<Rightarrow> string \<Rightarrow> dataframe \<Rightarrow> dataframe result" where
  "encode_top_other fmt src k dst df =
     bind_res (get_col src df) (\<lambda>c.
     bind_res (set_col dst (where_else_other fmt (top_values k c) c) df)
       (get_dummies fmt [dst]))"

definition low_card :: "string list" where
  "low_card = [''airconditioningtypeid'', ''heatingorsystemtypeid'', ''fips'', ''regionidcounty'']"

definition drop_zoning :: "dataframe \<Rightarrow> dataframe result" where
  "drop_zoning df =
     (if ''propertyzoningdesc'' \<in> set (names df) then drop_columns [''propertyzoningdesc''] df
      else Inr df)"

definition encoding_steps :: "(flt \<Rightarrow> string) \<Rightarrow> (dataframe \<Rightarrow> dataframe result) list" where
  "encoding_steps fmt =
     map (encode_top_minus1 fmt)
       [(''regionidcity'', 50), (''regionidzip'', 50), (''regionidneighborhood'', 50)]
     @ [encode_top_other fmt ''propertycountylandusecode'' 15 ''propertycountylanduse_top'',
        encode_top_other fmt ''propertylandusetypeid'' 5 ''propertylandusetype_top'',
        get_dummies fmt low_card,
        drop_zoning]"

subsection \<open>The transform and the pipeline\<close>

definition all_steps :: "(flt \<Rightarrow> string) \<Rightarrow> (dataframe \<Rightarrow> dataframe result) list" where
  "all_steps fmt =
     [fix_room_count, clean_garage_sqft] @ feature_steps @ [add_multi_unit, add_has_garage]
     @ encoding_steps fmt"

definition feature_engineering :: "(flt \<Rightarrow> string) \<Rightarrow> dataframe \<Rightarrow> dataframe result" where
  \<comment> \<open>the \<^verbatim>\<open>try\<close> block; any exception is re-raised wrapped in \<^verbatim>\<open>CustomException\<close>\<close>
  "feature_engineering fmt df =
     (case run_steps (all_steps fmt) df of
        Inl e \<Rightarrow> Inl (CustomException e)
      | Inr df' \<Rightarrow> Inr df')"

record DataTransformationConfig =
  transformed_train_path :: string
  transformed_test_path :: string
  preprocessor_obj_path :: string

definition config :: DataTransformationConfig where
  "config = \<lparr> transformed_train_path = ''artifacts/train_transformed.csv'',
              transformed_test_path = ''artifacts/test_transformed.csv'',
              preprocessor_obj_path = ''artifacts/preprocessor.pkl'' \<rparr>"

definition concat_cols :: "dataframe \<Rightarrow> string \<Rightarrow> column \<Rightarrow> dataframe" where
  \<comment> \<open>\<^verbatim>\<open>pd.concat([X, y], axis=1)\<close>\<close>
  "concat_cols X n y = X\<lparr>cols := cols X @ [(n, y)]\<rparr>"

definition split_target :: "dataframe \<Rightarrow> (dataframe \<times> column) result" where
  \<comment> \<open>\<^verbatim>\<open>df.drop(columns=[target_col]), df[target_col]\<close>\<close>
  "split_target df =
     bind_res (drop_columns [''taxvaluedollarcnt''] df) (\<lambda>X.
     bind_res (get_col ''taxvaluedollarcnt'' df) (\<lambda>y. Inr (X, y)))"

text \<open>
  The file system is a state \<open>'fs\<close> threaded through the run. Reading a table, creating
  a directory and writing a table are done by pandas and the operating system; they are
  parameters, each of which may raise.
\<close>

record 'fs io =
  read_csv :: "'fs \<Rightarrow> string \<Rightarrow> dataframe result"
  makedirs :: "'fs \<Rightarrow> string \<Rightarrow> 'fs result"
  to_csv :: "'fs \<Rightarrow> string \<Rightarrow> dataframe \<Rightarrow> 'fs result"

definition or_raise :: "'fs \<Rightarrow> 'a result \<Rightarrow> ('a \<Rightarrow> 'fs \<times> 'b result) \<Rightarrow> 'fs \<times> 'b result" where
  \<comment> \<open>one statement inside the \<^verbatim>\<open>try\<close> block: an exception leaves the block and is
      re-raised wrapped in \<^verbatim>\<open>CustomException\<close>, with the file system as it is then\<close>
  "or_raise fs r k = (case r of Inl e \<Rightarrow> (fs, Inl (CustomException e)) | Inr x \<Rightarrow> k x)"

definition initiate_data_transformation ::
  "(flt \<Rightarrow> string) \<Rightarrow> 'fs io \<Rightarrow> 'fs \<Rightarrow> string \<Rightarrow> string
     \<Rightarrow> 'fs \<times> (dataframe \<times> dataframe \<times> column \<times> column) result" where
  "initiate_data_transformation fmt io fs train_path test_path =
     or_raise fs (read_csv io fs train_path) (\<lambda>train_raw.
     or_raise fs (read_csv io fs test_path) (\<lambda>test_raw.
     or_raise fs (feature_engineering fmt train_raw) (\<lambda>train_df.
     or_raise fs (feature_engineering fmt test_raw) (\<lambda>test_df.
     or_raise fs (split_target train_df) (\<lambda>(X_train, y_train).
     or_raise fs (split_target test_df) (\<lambda>(X_test, y_test).
     or_raise fs (makedirs io fs ''artifacts'') (\<lambda>fs1.
     or_raise fs1 (to_csv io fs1 (transformed_train_path config)
                    (concat_cols X_train ''taxvaluedollarcnt'' y_train)) (\<lambda>fs2.
     or_raise fs2 (to_csv io fs2 (transformed_test_path config)
                    (concat_cols X_test ''taxvaluedollarcnt'' y_test)) (\<lambda>fs3.
       (fs3, Inr (X_train, X_test, y_train, y_test)))))))))))"

section \<open>Properties of single steps\<close>

text \<open>
  Three properties are tracked through the sequence of steps: which columns a step
  leaves as they are, that a step keeps the number of rows and the length of every
  column, and where the columns of the result come from.
\<close>

definition keeps :: "string \<Rightarrow> (dataframe \<Rightarrow> dataframe result) \<Rightarrow> bool" where
  "keeps n S = (\<forall>df df'. S df = Inr df' \<longrightarrow> map_of (cols df') n = map_of (cols df) n)"

definition shape_ok :: "(dataframe \<Rightarrow> dataframe result) \<Rightarrow> bool" where
  "shape_ok S = (\<forall>df df'. S df = Inr df' \<longrightarrow> nrows df' = nrows df \<and> (wf df \<longrightarrow> wf df'))"

definition engineered :: "string list" where
  "engineered = [''roomcnt_fixed'', ''garagetotalsqft'', ''price_per_sqft'', ''age_of_home'',
     ''bath_per_bed'', ''rooms_per_sqft'', ''garage_sqft_ratio'', ''multi_unit'', ''has_garage'']"

definition fresh_ok :: "string \<Rightarrow> column \<Rightarrow> bool" where
  "fresh_ok n c = (\<exists>xs. c = NumCol xs \<and> (n \<in> set engineered \<or> set xs \<subseteq> {Fin 0, Fin 1}))"

definition provenance :: "(dataframe \<Rightarrow> dataframe result) \<Rightarrow> bool" where
  "provenance S =
     (\<forall>df df' n c. S df = Inr df' \<longrightarrow> (n, c) \<in> set (cols df') \<longrightarrow>
        (n, c) \<in> set (cols df) \<or> fresh_ok n c)"

definition encoded_names :: "string list" where
  "encoded_names =
     [''regionidcity_top'', ''regionidzip_top'', ''regionidneighborhood_top'',
      ''propertycountylanduse_top'', ''propertylandusetype_top''] @ low_card"

text \<open>The numbers of a column of the table, as arithmetic on it reads them.\<close>

definition num_col :: "string \<Rightarrow> dataframe \<Rightarrow> (flt list) result" where
  "num_col n df = bind_res (get_col n df) as_num"

section \<open>An example table\<close>

text \<open>
  The text of a number, for the examples: a whole number is written the way numpy
  writes a float (\<^verbatim>\<open>261.0\<close>), up to twenty digits.
\<close>

fun digits :: "nat \<Rightarrow> int \<Rightarrow> string" where
  "digits 0 n = []"
| "digits (Suc f) n =
     (if n < 10 then [char_of (48 + n)] else digits f (n div 10) @ [char_of (48 + n mod 10)])"

definition int_str :: "int \<Rightarrow> string" where
  "int_str n = (if n < 0 then ''-'' @ digits 20 (- n) else digits 20 n)"

definition whole_str :: "flt \<Rightarrow> string" where
  "whole_str x =
     (case x of
        NaN \<Rightarrow> ''nan'' | PInf \<Rightarrow> ''inf'' | NInf \<Rightarrow> ''-inf''
      | Fin r \<Rightarrow>
          (let (p, q) = quotient_of r
           in if q = 1 then int_str p @ ''.0'' else int_str p @ ''/'' @ int_str q))"

definition sample :: dataframe where
  "sample = \<lparr> nrows = 5, cols =
     [(''roomcnt'', NumCol [Fin 0, Fin 5, NaN, Fin 3, Fin 6]),
      (''bedroomcnt'', NumCol [Fin 2, Fin 3, Fin 1, Fin 2, Fin 4]),
      (''bathroomcnt'', NumCol [Fin 1, Fin 2, Fin 1, Fin 1, Fin 3]),
      (''garagetotalsqft'', NumCol [Fin 0, Fin 400, Fin 600, Fin 0, Fin 300]),
      (''garagecarcnt'', NumCol [Fin 2, Fin 2, Fin 2, NaN, Fin 0]),
      (''taxvaluedollarcnt'', NumCol [Fin 100000, Fin 250000, NaN, Fin 180000, Fin 320000]),
      (''calculatedfinishedsquarefeet'', NumCol [Fin 0, Fin 1000, Fin 0, Fin 1500, Fin 2000]),
      (''yearbuilt'', NumCol [Fin 1990, Fin 2000, Fin 2025, Fin 1975, NaN]),
      (''unitcnt'', NumCol [NaN, Fin 2, Fin 1, Fin 1, Fin 3]),
      (''regionidcity'', NumCol [Fin 12447, Fin 12447, Fin 5534, Fin 12447, NaN]),
      (''regionidzip'', NumCol [Fin 96000, Fin 96001, Fin 96001, Fin 96000, Fin 96000]),
      (''regionidneighborhood'', NumCol [NaN, Fin 27, Fin 27, NaN, Fin 31]),
      (''propertycountylandusecode'',
         ObjCol [Str ''0100'', Str ''0100'', Str ''010C'', Str ''0100'', Num NaN]),
      (''propertylandusetypeid'', NumCol [Fin 261, Fin 261, Fin 246, Fin 261, Fin 266]),
      (''airconditioningtypeid'', NumCol [Fin 1, NaN, Fin 1, Fin 13, Fin 1]),
      (''heatingorsystemtypeid'', NumCol [Fin 2, Fin 2, Fin 7, Fin 2, NaN]),
      (''fips'', NumCol [Fin 6037, Fin 6037, Fin 6059, Fin 6111, Fin 6037]),
      (''regionidcounty'', NumCol [Fin 3101, Fin 3101, Fin 1286, Fin 2061, Fin 3101]),
      (''propertyzoningdesc'',
         ObjCol [Str ''LAR1'', Str ''LAR1'', Num NaN, Str ''LCR1'', Str ''LAR1''])] \<rparr>"

text \<open>The table that the transformation makes of it.\<close>

definition sample_out :: dataframe where
  "sample_out = \<lparr> nrows = 5, cols =
     [(''bedroomcnt'', NumCol [Fin 2, Fin 3, Fin 1, Fin 2, Fin 4]),
      (''bathroomcnt'', NumCol [Fin 1, Fin 2, Fin 1, Fin 1, Fin 3]),
      (''garagetotalsqft'', NumCol [Fin 500, Fin 400, Fin 600, NaN, Fin 300]),
      (''garagecarcnt'', NumCol [Fin 2, Fin 2, Fin 2, NaN, Fin 0]),
      (''taxvaluedollarcnt'', NumCol [Fin 100000, Fin 250000, NaN, Fin 180000, Fin 320000]),
      (''calculatedfinishedsquarefeet'', NumCol [Fin 0, Fin 1000, Fin 0, Fin 1500, Fin 2000]),
      (''yearbuilt'', NumCol [Fin 1990, Fin 2000, Fin 2025, Fin 1975, NaN]),
      (''unitcnt'', NumCol [NaN, Fin 2, Fin 1, Fin 1, Fin 3]),
      (''regionidcity'', NumCol [Fin 12447, Fin 12447, Fin 5534, Fin 12447, NaN]),
      (''regionidzip'', NumCol [Fin 96000, Fin 96001, Fin 96001, Fin 96000, Fin 96000]),
      (''regionidneighborhood'', NumCol [NaN, Fin 27, Fin 27, NaN, Fin 31]),
      (''propertycountylandusecode'',
         ObjCol [Str ''0100'', Str ''0100'', Str ''010C'', Str ''0100'', Num NaN]),
      (''propertylandusetypeid'', NumCol [Fin 261, Fin 261, Fin 246, Fin 261, Fin 266]),
      (''roomcnt_fixed'', NumCol [Fin 4, Fin 5, Fin 3, Fin 3, Fin 6]),
      (''price_per_sqft'',
         NumCol [Fin 10000000000, Fin (25000000000 / 100000001), NaN,
                 Fin (18000000000 / 150000001), Fin (32000000000 / 200000001)]),
      (''age_of_home'', NumCol [Fin 35, Fin 25, Fin 0, Fin 50, NaN]),
      (''bath_per_bed'',
         NumCol [Fin (100000 / 200001), Fin (200000 / 300001), Fin (100000 / 100001),
                 Fin (100000 / 200001), Fin (300000 / 400001)]),
      (''rooms_per_sqft'',
         NumCol [Fin 400000, Fin (500000 / 100000001), Fin 300000,
                 Fin (300000 / 150000001), Fin (200000 / 66666667)]),
      (''garage_sqft_ratio'',
         NumCol [Fin 50000000, Fin (40000000 / 100000001), Fin 60000000, NaN,
                 Fin (10000000 / 66666667)]),
      (''multi_unit'', NumCol [Fin 0, Fin 1, Fin 0, Fin 0, Fin 1]),
      (''has_garage'', NumCol [Fin 1, Fin 1, Fin 1, Fin 0, Fin 1]),
      (''regionidcity_top_5534.0'', NumCol [Fin 0, Fin 0, Fin 1, Fin 0, Fin 0]),
      (''regionidcity_top_12447.0'', NumCol [Fin 1, Fin 1, Fin 0, Fin 1, Fin 0]),
      (''regionidzip_top_96001.0'', NumCol [Fin 0, Fin 1, Fin 1, Fin 0, Fin 0]),
      (''regionidneighborhood_top_27.0'', NumCol [Fin 0, Fin 1, Fin 1, Fin 0, Fin 0]),
      (''regionidneighborhood_top_31.0'', NumCol [Fin 0, Fin 0, Fin 0, Fin 0, Fin 1]),
      (''propertycountylanduse_top_010C'', NumCol [Fin 0, Fin 0, Fin 1, Fin 0, Fin 0]),
      (''propertycountylanduse_top_other'', NumCol [Fin 0, Fin 0, Fin 0, Fin 0, Fin 1]),
      (''propertylandusetype_top_261.0'', NumCol [Fin 1, Fin 1, Fin 0, Fin 1, Fin 0]),
      (''propertylandusetype_top_266.0'', NumCol [Fin 0, Fin 0, Fin 0, Fin 0, Fin 1]),
      (''airconditioningtypeid_13.0'', NumCol [Fin 0, Fin 0, Fin 0, Fin 1, Fin 0]),
      (''heatingorsystemtypeid_7.0'', NumCol [Fin 0, Fin 0, Fin 1, Fin 0, Fin 0]),
      (''fips_6059.0'', NumCol [Fin 0, Fin 0, Fin 1, Fin 0, Fin 0]),
      (''fips_6111.0'', NumCol [Fin 0, Fin 0, Fin 0, Fin 1, Fin 0]),
      (''regionidcounty_2061.0'', NumCol [Fin 0, Fin 0, Fin 0, Fin 1, Fin 0]),
      (''regionidcounty_3101.0'', NumCol [Fin 1, Fin 1, Fin 0, Fin 0, Fin 1])] \<rparr>"

section \<open>Lemmas about the steps\<close>

lemma bind_res_Inr: "bind_res m f = Inr y \<longleftrightarrow> (\<exists>x. m = Inr x \<and> f x = Inr y)"
  by (cases m) (simp_all add: bind_res_def)

lemma bind_res_Inl: "bind_res m f = Inl e \<longleftrightarrow> m = Inl e \<or> (\<exists>x. m = Inr x \<and> f x = Inl e)"
  by (cases m) (simp_all add: bind_res_def)

lemma bind_res_simps [simp]: "bind_res (Inl e) f = Inl e" "bind_res (Inr x) f = f x"
  by (simp_all add: bind_res_def)

lemma foldl_bind_Inl: "foldl bind_res (Inl e) ss = Inl e"
  by (induction ss) simp_all

lemma run_steps_Nil [simp]: "run_steps [] df = Inr df"
  by (simp add: run_steps_def)

lemma run_steps_Cons: "run_steps (s # ss) df = bind_res (s df) (run_steps ss)"
  by (cases "s df") (simp_all add: run_steps_def foldl_bind_Inl)

lemma run_steps_append: "run_steps (ss @ ts) df = bind_res (run_steps ss df) (run_steps ts)"
  by (induction ss arbitrary: df) (simp_all add: run_steps_Cons bind_res_def split: sum.splits)

lemma keepsD: "keeps n S \<Longrightarrow> S df = Inr df' \<Longrightarrow> map_of (cols df') n = map_of (cols df) n"
  by (simp add: keeps_def)

lemma keeps_run_steps: "list_all (keeps n) ss \<Longrightarrow> keeps n (run_steps ss)"
proof (induction ss)
  case Nil
  then show ?case by (simp add: keeps_def)
next
  case (Cons s ss)
  then have s: "keeps n s" and r: "keeps n (run_steps ss)" by simp_all
  show ?case
    unfolding keeps_def
  proof (intro allI impI)
    fix df df' assume "run_steps (s # ss) df = Inr df'"
    then obtain d where "s df = Inr d" "run_steps ss d = Inr df'"
      by (auto simp: run_steps_Cons bind_res_Inr)
    then show "map_of (cols df') n = map_of (cols df) n"
      using keepsD [OF s] keepsD [OF r] by metis
  qed
qed

lemma shape_ok_run_steps: "list_all shape_ok ss \<Longrightarrow> shape_ok (run_steps ss)"
proof (induction ss)
  case Nil
  then show ?case by (simp add: shape_ok_def)
next
  case (Cons s ss)
  then have s: "shape_ok s" and r: "shape_ok (run_steps ss)" by simp_all
  show ?case
    unfolding shape_ok_def
  proof (intro allI impI)
    fix df df' assume "run_steps (s # ss) df = Inr df'"
    then obtain d where d: "s df = Inr d" "run_steps ss d = Inr df'"
      by (auto simp: run_steps_Cons bind_res_Inr)
    from s d(1) have 1: "nrows d = nrows df \<and> (wf df \<longrightarrow> wf d)" by (simp add: shape_ok_def)
    from r d(2) have 2: "nrows df' = nrows d \<and> (wf d \<longrightarrow> wf df')" by (simp add: shape_ok_def)
    from 1 2 show "nrows df' = nrows df \<and> (wf df \<longrightarrow> wf df')" by simp
  qed
qed

subsection \<open>set_col, drop_columns\<close>

lemma set_col_Inr:
  "set_col n c df = Inr df' \<longleftrightarrow> col_len c = nrows df \<and> df' = df\<lparr>cols := AList.update n c (cols df)\<rparr>"
  by (auto simp: set_col_def)

lemma wf_update: "wf df \<Longrightarrow> col_len c = nrows df \<Longrightarrow> wf (df\<lparr>cols := AList.update n c (cols df)\<rparr>)"
proof -
  have "list_all P al \<Longrightarrow> P (n, c) \<Longrightarrow> list_all P (AList.update n c al)" for P and al :: "(string \<times> column) list"
    by (induction al) auto
  then show "wf df \<Longrightarrow> col_len c = nrows df \<Longrightarrow> wf (df\<lparr>cols := AList.update n c (cols df)\<rparr>)"
    by (simp add: wf_def)
qed

lemma set_col_shape: "shape_ok (set_col n c)"
  by (auto simp: shape_ok_def set_col_Inr wf_update)

lemma set_col_keeps: "m \<noteq> n \<Longrightarrow> keeps m (set_col n c)"
  by (auto simp: keeps_def set_col_Inr update_conv')

lemma set_col_lookup: "set_col n c df = Inr df' \<Longrightarrow> map_of (cols df') n = Some c"
  by (auto simp: set_col_Inr update_conv')

lemma drop_columns_Inr:
  "drop_columns ns df = Inr df' \<longleftrightarrow>
     set ns \<subseteq> set (names df) \<and> df' = df\<lparr>cols := filter (\<lambda>(n, c). n \<notin> set ns) (cols df)\<rparr>"
proof -
  have e: "filter (\<lambda>n. n \<notin> set (names df)) ns = [] \<longleftrightarrow> set ns \<subseteq> set (names df)"
    by (auto simp: filter_empty_conv)
  show ?thesis
  proof (cases "filter (\<lambda>n. n \<notin> set (names df)) ns")
    case Nil
    with e show ?thesis by (auto simp: drop_columns_def)
  next
    case (Cons m ms)
    with e show ?thesis by (simp add: drop_columns_def)
  qed
qed

lemma map_of_filter_names:
  "map_of (filter (\<lambda>(n, c). n \<notin> N) al) m = (if m \<in> N then None else map_of al m)"
  by (induction al) auto

lemma drop_columns_shape: "shape_ok (drop_columns ns)"
  by (auto simp: shape_ok_def drop_columns_Inr wf_def list_all_iff)

lemma drop_columns_keeps: "m \<notin> set ns \<Longrightarrow> keeps m (drop_columns ns)"
  by (auto simp: keeps_def drop_columns_Inr map_of_filter_names)

lemma drop_columns_lookup: "drop_columns ns df = Inr df' \<Longrightarrow> m \<in> set ns \<Longrightarrow> map_of (cols df') m = None"
  by (auto simp: drop_columns_Inr map_of_filter_names)

lemma get_dummies_Inr:
  "get_dummies fmt ns df = Inr df' \<longleftrightarrow>
     set ns \<subseteq> set (names df) \<and>
     df' = df\<lparr>cols := filter (\<lambda>(n, c). n \<notin> set ns) (cols df) @ dummy_columns fmt ns df\<rparr>"
proof -
  have e: "filter (\<lambda>n. n \<notin> set (names df)) ns = [] \<longleftrightarrow> set ns \<subseteq> set (names df)"
    by (auto simp: filter_empty_conv)
  show ?thesis
  proof (cases "filter (\<lambda>n. n \<notin> set (names df)) ns")
    case Nil
    with e show ?thesis by (auto simp: get_dummies_def)
  next
    case (Cons m ms)
    with e show ?thesis by (simp add: get_dummies_def)
  qed
qed

lemma dummy_columns_mem:
  assumes "(m, c) \<in> set (dummy_columns fmt ns df)"
  shows "\<exists>p col l. p \<in> set ns \<and> map_of (cols df) p = Some col \<and> l \<in> set (tl (levels col))
        \<and> m = p @ ''_'' @ level_str fmt l \<and> c = indicator l col"
proof -
  from assms obtain p where p: "p \<in> set ns"
    and mc: "(m, c) \<in> set (case map_of (cols df) p of None \<Rightarrow> [] | Some col \<Rightarrow> dummies fmt p col)"
    unfolding dummy_columns_def by auto
  from mc obtain col where col: "map_of (cols df) p = Some col" and "(m, c) \<in> set (dummies fmt p col)"
    by (cases "map_of (cols df) p") auto
  then obtain l where "l \<in> set (tl (levels col))" "m = p @ ''_'' @ level_str fmt l" "c = indicator l col"
    unfolding dummies_def by auto
  with p col show ?thesis by blast
qed

lemma dummy_columns_prefix:
  assumes "(m, c) \<in> set (dummy_columns fmt ns df)"
  shows "\<exists>p\<in>set ns. prefix (p @ ''_'') m"
proof -
  from dummy_columns_mem [OF assms] obtain p s where "p \<in> set ns" "m = p @ ''_'' @ s"
    by blast
  then show ?thesis by (intro bexI [of _ p]) simp_all
qed

lemma indicator_binary: "indicator l col = NumCol xs \<Longrightarrow> set xs \<subseteq> {Fin 0, Fin 1}"
  by (auto simp: indicator_def of_bool_int_def)

lemma col_len_indicator: "col_len (indicator l col) = col_len col"
  by (cases col) (simp_all add: indicator_def col_len_def cells_def)

lemma wf_lookup: "wf df \<Longrightarrow> map_of (cols df) n = Some c \<Longrightarrow> col_len c = nrows df"
  by (auto simp: wf_def list_all_iff dest!: map_of_SomeD)

lemma dummy_columns_len:
  assumes "wf df" and "(m, c) \<in> set (dummy_columns fmt ns df)"
  shows "col_len c = nrows df"
proof -
  from dummy_columns_mem [OF assms(2)] obtain p col l
    where "map_of (cols df) p = Some col" "c = indicator l col" by blast
  with assms(1) show ?thesis by (simp add: col_len_indicator wf_lookup)
qed

lemma get_dummies_shape: "shape_ok (get_dummies fmt ns)"
  unfolding shape_ok_def
proof (intro allI impI conjI)
  fix df df' assume a: "get_dummies fmt ns df = Inr df'"
  then have c: "cols df' = filter (\<lambda>(n, c). n \<notin> set ns) (cols df) @ dummy_columns fmt ns df"
    and n: "nrows df' = nrows df"
    by (simp_all add: get_dummies_Inr)
  show "nrows df' = nrows df" by (rule n)
  assume w: "wf df"
  have "col_len c = nrows df'" if "(m, c) \<in> set (cols df')" for m c
  proof -
    from that c have "(m, c) \<in> set (cols df) \<or> (m, c) \<in> set (dummy_columns fmt ns df)"
      by auto
    then show ?thesis
    proof
      assume "(m, c) \<in> set (cols df)"
      with w have "col_len c = nrows df" unfolding wf_def list_all_iff by blast
      with n show ?thesis by simp
    next
      assume "(m, c) \<in> set (dummy_columns fmt ns df)"
      with w n show ?thesis by (simp add: dummy_columns_len)
    qed
  qed
  then show "wf df'" unfolding wf_def list_all_iff by blast
qed

lemma get_dummies_lookup:
  assumes "get_dummies fmt ns df = Inr df'" and "\<not> (\<exists>p\<in>set ns. prefix (p @ ''_'') m)"
  shows "map_of (cols df') m = (if m \<in> set ns then None else map_of (cols df) m)"
proof -
  have "m \<notin> fst ` set (dummy_columns fmt ns df)"
  proof
    assume "m \<in> fst ` set (dummy_columns fmt ns df)"
    then obtain c where "(m, c) \<in> set (dummy_columns fmt ns df)" by auto
    from dummy_columns_prefix [OF this] assms(2) show False by blast
  qed
  then have d: "map_of (dummy_columns fmt ns df) m = None"
    by (simp add: map_of_eq_None_iff)
  from assms(1) have "cols df' = filter (\<lambda>(n, c). n \<notin> set ns) (cols df) @ dummy_columns fmt ns df"
    by (simp add: get_dummies_Inr)
  then have "map_of (cols df') m =
      (map_of (dummy_columns fmt ns df) ++ map_of (filter (\<lambda>(n, c). n \<notin> set ns) (cols df))) m"
    by simp
  also have "\<dots> = map_of (filter (\<lambda>(n, c). n \<notin> set ns) (cols df)) m"
    using d by (simp add: map_add_def split: option.splits)
  finally show ?thesis by (simp add: map_of_filter_names)
qed

lemma get_dummies_keeps:
  assumes "m \<notin> set ns" and "\<not> (\<exists>p\<in>set ns. prefix (p @ ''_'') m)"
  shows "keeps m (get_dummies fmt ns)"
  unfolding keeps_def using get_dummies_lookup [OF _ assms(2)] assms(1) by simp

lemma provenanceD:
  "provenance S \<Longrightarrow> S df = Inr df' \<Longrightarrow> (n, c) \<in> set (cols df') \<Longrightarrow>
     (n, c) \<in> set (cols df) \<or> fresh_ok n c"
  unfolding provenance_def by blast

lemma provenance_run_steps: "list_all provenance ss \<Longrightarrow> provenance (run_steps ss)"
proof (induction ss)
  case Nil
  then show ?case by (simp add: provenance_def)
next
  case (Cons s ss)
  then have s: "provenance s" and r: "provenance (run_steps ss)" by simp_all
  show ?case
    unfolding provenance_def
  proof (intro allI impI)
    fix df df' n c
    assume "run_steps (s # ss) df = Inr df'" and m: "(n, c) \<in> set (cols df')"
    then obtain d where d: "s df = Inr d" "run_steps ss d = Inr df'"
      by (auto simp: run_steps_Cons bind_res_Inr)
    from provenanceD [OF r d(2) m] show "(n, c) \<in> set (cols df) \<or> fresh_ok n c"
      using provenanceD [OF s d(1)] by blast
  qed
qed

lemma set_update_subset: "set (AList.update n c al) \<subseteq> insert (n, c) (set al)"
  by (induction al) auto

lemma set_col_provenance: "fresh_ok n c \<Longrightarrow> provenance (set_col n c)"
  unfolding provenance_def set_col_Inr using set_update_subset by fastforce

lemma drop_columns_provenance: "provenance (drop_columns ns)"
  unfolding provenance_def drop_columns_Inr by auto

lemma dummy_columns_fresh:
  assumes "(m, c) \<in> set (dummy_columns fmt ns df)"
  shows "fresh_ok m c"
proof -
  from dummy_columns_mem [OF assms] obtain l col where "c = indicator l col" by blast
  then show ?thesis by (auto simp: fresh_ok_def indicator_def of_bool_int_def)
qed

lemma get_dummies_provenance: "provenance (get_dummies fmt ns)"
  unfolding provenance_def get_dummies_Inr by (auto dest: dummy_columns_fresh)

lemma get_col_Inr: "get_col n df = Inr c \<longleftrightarrow> map_of (cols df) n = Some c"
  by (simp add: get_col_def split: option.splits)

lemma shape_okD: "shape_ok S \<Longrightarrow> S df = Inr df' \<Longrightarrow> nrows df' = nrows df \<and> (wf df \<longrightarrow> wf df')"
  by (simp add: shape_ok_def)

lemma fresh_engineered: "n \<in> set engineered \<Longrightarrow> fresh_ok n (NumCol xs)"
  by (simp add: fresh_ok_def)

text \<open>Steps that end by assigning one numeric column.\<close>

lemma assign_step:
  assumes "\<And>df df'. S df = Inr df' \<Longrightarrow> \<exists>xs. set_col n (NumCol xs) df = Inr df'"
  shows "shape_ok S" and "n \<in> set engineered \<Longrightarrow> provenance S" and "m \<noteq> n \<Longrightarrow> keeps m S"
proof -
  show "shape_ok S"
    unfolding shape_ok_def using assms shape_okD [OF set_col_shape] by blast
  show "provenance S" if "n \<in> set engineered"
    unfolding provenance_def
  proof (intro allI impI)
    fix df df' k c assume "S df = Inr df'" and kc: "(k, c) \<in> set (cols df')"
    with assms obtain xs where "set_col n (NumCol xs) df = Inr df'" by blast
    with provenanceD [OF set_col_provenance [OF fresh_engineered [OF that]]]
    show "(k, c) \<in> set (cols df') \<Longrightarrow> (k, c) \<in> set (cols df) \<or> fresh_ok k c" for k c
      by blast
  qed
  show "keeps m S" if "m \<noteq> n"
    unfolding keeps_def using assms keepsD [OF set_col_keeps [OF that]] by blast
qed

lemma fix_room_count_Inr:
  "fix_room_count df = Inr df' \<Longrightarrow>
     \<exists>c_room room c_bed c_bath bed bath d.
        get_col ''roomcnt'' df = Inr c_room \<and> as_num c_room = Inr room \<and>
        get_col ''bedroomcnt'' df = Inr c_bed \<and> get_col ''bathroomcnt'' df = Inr c_bath \<and>
        as_num c_bed = Inr bed \<and> as_num c_bath = Inr bath \<and>
        set_col ''roomcnt_fixed''
          (NumCol (map (\<lambda>(r, b, ba). roomcnt_fixed r b ba) (zip room (zip bed bath)))) df = Inr d \<and>
        drop_columns [''roomcnt''] d = Inr df'"
  unfolding fix_room_count_def bind_res_Inr by blast

lemma clean_garage_sqft_Inr:
  "clean_garage_sqft df = Inr df' \<Longrightarrow>
     \<exists>c_sqft c_cnt cnt.
        get_col ''garagetotalsqft'' df = Inr c_sqft \<and> get_col ''garagecarcnt'' df = Inr c_cnt \<and>
        as_num c_cnt = Inr cnt \<and>
        set_col ''garagetotalsqft''
          (NumCol (fillna_group_median cnt
             (map the_flt (map (\<lambda>(v, k). mark_garage v k) (zip (cells c_sqft) cnt))))) df = Inr df'"
  unfolding clean_garage_sqft_def bind_res_Inr by (auto simp: Let_def split: if_splits)

lemma add_ratio_Inr:
  "add_ratio dst a b df = Inr df' \<Longrightarrow>
     \<exists>c_a c_b xs ys.
        get_col a df = Inr c_a \<and> get_col b df = Inr c_b \<and> as_num c_b = Inr ys \<and> as_num c_a = Inr xs \<and>
        set_col dst (NumCol (map2 ratio xs ys)) df = Inr df'"
  unfolding add_ratio_def bind_res_Inr by blast

lemma add_age_of_home_Inr:
  "add_age_of_home df = Inr df' \<Longrightarrow>
     \<exists>c ys. get_col ''yearbuilt'' df = Inr c \<and> as_num c = Inr ys \<and>
        set_col ''age_of_home'' (NumCol (map (fl_sub (Fin 2025)) ys)) df = Inr df'"
  unfolding add_age_of_home_def bind_res_Inr by blast

lemma add_multi_unit_Inr:
  "add_multi_unit df = Inr df' \<Longrightarrow>
     \<exists>c us. get_col ''unitcnt'' df = Inr c \<and> as_num c = Inr us \<and>
        set_col ''multi_unit'' (NumCol (map multi_unit us)) df = Inr df'"
  unfolding add_multi_unit_def bind_res_Inr by blast

lemma add_has_garage_Inr:
  "add_has_garage df = Inr df' \<Longrightarrow>
     \<exists>c_cnt cnt c_sqft sqft.
        get_col ''garagecarcnt'' df = Inr c_cnt \<and> as_num c_cnt = Inr cnt \<and>
        get_col ''garagetotalsqft'' df = Inr c_sqft \<and> as_num c_sqft = Inr sqft \<and>
        set_col ''has_garage'' (NumCol (map2 has_garage cnt sqft)) df = Inr df'"
  unfolding add_has_garage_def bind_res_Inr by blast

lemma encode_top_minus1_Inr:
  "encode_top_minus1 fmt (col, k) df = Inr df' \<Longrightarrow>
     \<exists>c d. get_col col df = Inr c \<and>
        set_col (col @ ''_top'') (where_else_minus1 (top_values k c) c) df = Inr d \<and>
        get_dummies fmt [col @ ''_top''] d = Inr df'"
  by (simp add: encode_top_minus1_def bind_res_Inr)

lemma encode_top_other_Inr:
  "encode_top_other fmt src k dst df = Inr df' \<Longrightarrow>
     \<exists>c d. get_col src df = Inr c \<and>
        set_col dst (where_else_other fmt (top_values k c) c) df = Inr d \<and>
        get_dummies fmt [dst] d = Inr df'"
  unfolding encode_top_other_def bind_res_Inr by blast

lemma get_dummies_mem:
  assumes "get_dummies fmt ns d = Inr df'" and "(n, c) \<in> set (cols df')"
  shows "((n, c) \<in> set (cols d) \<and> n \<notin> set ns) \<or> (n, c) \<in> set (dummy_columns fmt ns d)"
  using assms unfolding get_dummies_Inr by auto

text \<open>Steps that assign a reduced column and replace it by its indicator columns.\<close>

lemma encode_step:
  assumes "\<And>df df'. S df = Inr df' \<Longrightarrow>
             \<exists>c d. set_col dst c df = Inr d \<and> get_dummies fmt [dst] d = Inr df'"
  shows "shape_ok S" and "provenance S"
    and "m \<noteq> dst \<Longrightarrow> \<not> prefix (dst @ ''_'') m \<Longrightarrow> keeps m S"
    and "S df = Inr df' \<Longrightarrow> map_of (cols df') dst = None"
proof -
  show "shape_ok S"
    unfolding shape_ok_def
  proof (intro allI impI)
    fix df df' assume "S df = Inr df'"
    with assms obtain c d where d: "set_col dst c df = Inr d" "get_dummies fmt [dst] d = Inr df'"
      by blast
    from shape_okD [OF set_col_shape d(1)] shape_okD [OF get_dummies_shape d(2)]
    show "nrows df' = nrows df \<and> (wf df \<longrightarrow> wf df')" by simp
  qed
  show "provenance S"
    unfolding provenance_def
  proof (intro allI impI)
    fix df df' n c assume "S df = Inr df'" and nc: "(n, c) \<in> set (cols df')"
    with assms obtain r d where d: "set_col dst r df = Inr d" "get_dummies fmt [dst] d = Inr df'"
      by blast
    from get_dummies_mem [OF d(2) nc]
    show "(n, c) \<in> set (cols df) \<or> fresh_ok n c"
    proof
      assume a: "(n, c) \<in> set (cols d) \<and> n \<notin> set [dst]"
      from d(1) have "cols d = AList.update dst r (cols df)"
        by (simp add: set_col_Inr)
      with set_update_subset [of dst r "cols df"]
      have "set (cols d) \<subseteq> insert (dst, r) (set (cols df))" by simp
      with a show ?thesis by auto
    next
      assume "(n, c) \<in> set (dummy_columns fmt [dst] d)"
      then show ?thesis by (simp add: dummy_columns_fresh)
    qed
  qed
  show "keeps m S" if "m \<noteq> dst" "\<not> prefix (dst @ ''_'') m"
    unfolding keeps_def
  proof (intro allI impI)
    fix df df' assume "S df = Inr df'"
    with assms obtain c d where d: "set_col dst c df = Inr d" "get_dummies fmt [dst] d = Inr df'"
      by blast
    from that have k: "keeps m (get_dummies fmt [dst])" by (intro get_dummies_keeps) simp_all
    from keepsD [OF set_col_keeps [OF that(1)] d(1)] keepsD [OF k d(2)]
    show "map_of (cols df') m = map_of (cols df) m" by simp
  qed
  show "map_of (cols df') dst = None" if "S df = Inr df'"
  proof -
    from that assms obtain c d where d: "get_dummies fmt [dst] d = Inr df'" by blast
    have "\<not> prefix (dst @ ''_'') dst"
      by (auto dest: prefix_length_le)
    with get_dummies_lookup [OF d, of dst] show ?thesis by simp
  qed
qed

lemma fix_room_count_props:
  shows "shape_ok fix_room_count" and "provenance fix_room_count"
    and "m \<noteq> ''roomcnt_fixed'' \<Longrightarrow> m \<noteq> ''roomcnt'' \<Longrightarrow> keeps m fix_room_count"
proof -
  show "shape_ok fix_room_count"
    unfolding shape_ok_def
  proof (intro allI impI)
    fix df df' assume "fix_room_count df = Inr df'"
    from fix_room_count_Inr [OF this] obtain c d
      where d: "set_col ''roomcnt_fixed'' c df = Inr d" "drop_columns [''roomcnt''] d = Inr df'"
      by blast
    from shape_okD [OF set_col_shape d(1)] shape_okD [OF drop_columns_shape d(2)]
    show "nrows df' = nrows df \<and> (wf df \<longrightarrow> wf df')" by simp
  qed
  show "provenance fix_room_count"
    unfolding provenance_def
  proof (intro allI impI)
    fix df df' n c assume "fix_room_count df = Inr df'" and nc: "(n, c) \<in> set (cols df')"
    from fix_room_count_Inr [OF this(1)] obtain xs d
      where d: "set_col ''roomcnt_fixed'' (NumCol xs) df = Inr d"
        "drop_columns [''roomcnt''] d = Inr df'"
      by blast
    have f: "fresh_ok ''roomcnt_fixed'' (NumCol xs)"
      by (simp add: fresh_ok_def engineered_def)
    from provenanceD [OF drop_columns_provenance d(2) nc]
    show "(n, c) \<in> set (cols df) \<or> fresh_ok n c"
    proof
      assume "(n, c) \<in> set (cols d)"
      from provenanceD [OF set_col_provenance [OF f] d(1) this] show ?thesis .
    next
      assume "fresh_ok n c"
      then show ?thesis by simp
    qed
  qed
  show "keeps m fix_room_count" if "m \<noteq> ''roomcnt_fixed''" "m \<noteq> ''roomcnt''"
    unfolding keeps_def
  proof (intro allI impI)
    fix df df' assume "fix_room_count df = Inr df'"
    from fix_room_count_Inr [OF this] obtain c d
      where d: "set_col ''roomcnt_fixed'' c df = Inr d" "drop_columns [''roomcnt''] d = Inr df'"
      by blast
    from that(2) have k: "keeps m (drop_columns [''roomcnt''])"
      by (intro drop_columns_keeps) simp
    from keepsD [OF set_col_keeps [OF that(1)] d(1)] keepsD [OF k d(2)]
    show "map_of (cols df') m = map_of (cols df) m" by simp
  qed
qed

lemma clean_garage_sqft_assign:
  "clean_garage_sqft df = Inr df' \<Longrightarrow> \<exists>xs. set_col ''garagetotalsqft'' (NumCol xs) df = Inr df'"
  by (drule clean_garage_sqft_Inr) blast

lemma add_ratio_assign:
  "add_ratio dst a b df = Inr df' \<Longrightarrow> \<exists>xs. set_col dst (NumCol xs) df = Inr df'"
  by (drule add_ratio_Inr) blast

lemma add_age_of_home_assign:
  "add_age_of_home df = Inr df' \<Longrightarrow> \<exists>xs. set_col ''age_of_home'' (NumCol xs) df = Inr df'"
  by (drule add_age_of_home_Inr) blast

lemma add_multi_unit_assign:
  "add_multi_unit df = Inr df' \<Longrightarrow> \<exists>xs. set_col ''multi_unit'' (NumCol xs) df = Inr df'"
  by (drule add_multi_unit_Inr) blast

lemma add_has_garage_assign:
  "add_has_garage df = Inr df' \<Longrightarrow> \<exists>xs. set_col ''has_garage'' (NumCol xs) df = Inr df'"
  by (drule add_has_garage_Inr) blast

lemma clean_garage_sqft_props:
  shows "shape_ok clean_garage_sqft" and "provenance clean_garage_sqft"
    and "m \<noteq> ''garagetotalsqft'' \<Longrightarrow> keeps m clean_garage_sqft"
proof -
  show "shape_ok clean_garage_sqft"
    by (rule assign_step(1) [OF clean_garage_sqft_assign])
  show "provenance clean_garage_sqft"
    by (rule assign_step(2) [OF clean_garage_sqft_assign]) (simp_all add: engineered_def)
  show "m \<noteq> ''garagetotalsqft'' \<Longrightarrow> keeps m clean_garage_sqft"
    by (rule assign_step(3) [OF clean_garage_sqft_assign])
qed

lemma add_ratio_props:
  shows "shape_ok (add_ratio dst a b)" and "dst \<in> set engineered \<Longrightarrow> provenance (add_ratio dst a b)"
    and "m \<noteq> dst \<Longrightarrow> keeps m (add_ratio dst a b)"
proof -
  show "shape_ok (add_ratio dst a b)"
    by (rule assign_step(1) [OF add_ratio_assign])
  show "dst \<in> set engineered \<Longrightarrow> provenance (add_ratio dst a b)"
    by (rule assign_step(2) [OF add_ratio_assign])
  show "m \<noteq> dst \<Longrightarrow> keeps m (add_ratio dst a b)"
    by (rule assign_step(3) [OF add_ratio_assign])
qed

lemma add_age_of_home_props:
  shows "shape_ok add_age_of_home" and "provenance add_age_of_home"
    and "m \<noteq> ''age_of_home'' \<Longrightarrow> keeps m add_age_of_home"
proof -
  show "shape_ok add_age_of_home"
    by (rule assign_step(1) [OF add_age_of_home_assign])
  show "provenance add_age_of_home"
    by (rule assign_step(2) [OF add_age_of_home_assign]) (simp_all add: engineered_def)
  show "m \<noteq> ''age_of_home'' \<Longrightarrow> keeps m add_age_of_home"
    by (rule assign_step(3) [OF add_age_of_home_assign])
qed

lemma add_multi_unit_props:
  shows "shape_ok add_multi_unit" and "provenance add_multi_unit"
    and "m \<noteq> ''multi_unit'' \<Longrightarrow> keeps m add_multi_unit"
proof -
  show "shape_ok add_multi_unit"
    by (rule assign_step(1) [OF add_multi_unit_assign])
  show "provenance add_multi_unit"
    by (rule assign_step(2) [OF add_multi_unit_assign]) (simp_all add: engineered_def)
  show "m \<noteq> ''multi_unit'' \<Longrightarrow> keeps m add_multi_unit"
    by (rule assign_step(3) [OF add_multi_unit_assign])
qed

lemma add_has_garage_props:
  shows "shape_ok add_has_garage" and "provenance add_has_garage"
    and "m \<noteq> ''has_garage'' \<Longrightarrow> keeps m add_has_garage"
proof -
  show "shape_ok add_has_garage"
    by (rule assign_step(1) [OF add_has_garage_assign])
  show "provenance add_has_garage"
    by (rule assign_step(2) [OF add_has_garage_assign]) (simp_all add: engineered_def)
  show "m \<noteq> ''has_garage'' \<Longrightarrow> keeps m add_has_garage"
    by (rule assign_step(3) [OF add_has_garage_assign])
qed

lemma encode_top_minus1_enc:
  "encode_top_minus1 fmt (col, k) df = Inr df' \<Longrightarrow>
     \<exists>c d. set_col (col @ ''_top'') c df = Inr d \<and> get_dummies fmt [col @ ''_top''] d = Inr df'"
  by (drule encode_top_minus1_Inr) blast

lemma encode_top_other_enc:
  "encode_top_other fmt src k dst df = Inr df' \<Longrightarrow>
     \<exists>c d. set_col dst c df = Inr d \<and> get_dummies fmt [dst] d = Inr df'"
  by (drule encode_top_other_Inr) blast

lemma encode_top_minus1_props:
  shows "shape_ok (encode_top_minus1 fmt (col, k))" and "provenance (encode_top_minus1 fmt (col, k))"
    and "m \<noteq> col @ ''_top'' \<Longrightarrow> \<not> prefix ((col @ ''_top'') @ ''_'') m
           \<Longrightarrow> keeps m (encode_top_minus1 fmt (col, k))"
    and "encode_top_minus1 fmt (col, k) df = Inr df' \<Longrightarrow> map_of (cols df') (col @ ''_top'') = None"
proof -
  show "shape_ok (encode_top_minus1 fmt (col, k))"
    by (rule encode_step(1) [OF encode_top_minus1_enc])
  show "provenance (encode_top_minus1 fmt (col, k))"
    by (rule encode_step(2) [OF encode_top_minus1_enc])
  show "m \<noteq> col @ ''_top'' \<Longrightarrow> \<not> prefix ((col @ ''_top'') @ ''_'') m
           \<Longrightarrow> keeps m (encode_top_minus1 fmt (col, k))"
    by (rule encode_step(3) [OF encode_top_minus1_enc])
  show "encode_top_minus1 fmt (col, k) df = Inr df' \<Longrightarrow> map_of (cols df') (col @ ''_top'') = None"
    by (rule encode_step(4) [OF encode_top_minus1_enc])
qed

lemma encode_top_other_props:
  shows "shape_ok (encode_top_other fmt src k dst)" and "provenance (encode_top_other fmt src k dst)"
    and "m \<noteq> dst \<Longrightarrow> \<not> prefix (dst @ ''_'') m \<Longrightarrow> keeps m (encode_top_other fmt src k dst)"
    and "encode_top_other fmt src k dst df = Inr df' \<Longrightarrow> map_of (cols df') dst = None"
proof -
  show "shape_ok (encode_top_other fmt src k dst)"
    by (rule encode_step(1) [OF encode_top_other_enc])
  show "provenance (encode_top_other fmt src k dst)"
    by (rule encode_step(2) [OF encode_top_other_enc])
  show "m \<noteq> dst \<Longrightarrow> \<not> prefix (dst @ ''_'') m \<Longrightarrow> keeps m (encode_top_other fmt src k dst)"
    by (rule encode_step(3) [OF encode_top_other_enc])
  show "encode_top_other fmt src k dst df = Inr df' \<Longrightarrow> map_of (cols df') dst = None"
    by (rule encode_step(4) [OF encode_top_other_enc])
qed

lemma drop_zoning_props:
  shows "shape_ok drop_zoning" and "provenance drop_zoning"
    and "m \<noteq> ''propertyzoningdesc'' \<Longrightarrow> keeps m drop_zoning"
    and "drop_zoning df = Inr df' \<Longrightarrow> map_of (cols df') ''propertyzoningdesc'' = None"
proof -
  have c: "drop_zoning df = Inr df' \<Longrightarrow>
      df' = df \<and> ''propertyzoningdesc'' \<notin> set (names df)
      \<or> drop_columns [''propertyzoningdesc''] df = Inr df'" for df df'
    by (auto simp: drop_zoning_def split: if_splits)
  show "shape_ok drop_zoning"
    unfolding shape_ok_def using c shape_okD [OF drop_columns_shape] by blast
  show "provenance drop_zoning"
    unfolding provenance_def using c provenanceD [OF drop_columns_provenance] by blast
  show "keeps m drop_zoning" if "m \<noteq> ''propertyzoningdesc''"
  proof -
    from that have "keeps m (drop_columns [''propertyzoningdesc''])"
      by (intro drop_columns_keeps) simp
    then show ?thesis unfolding keeps_def using c by blast
  qed
  show "map_of (cols df') ''propertyzoningdesc'' = None" if "drop_zoning df = Inr df'"
    using c [OF that]
  proof
    assume "df' = df \<and> ''propertyzoningdesc'' \<notin> set (names df)"
    then show ?thesis by (simp add: names_def map_of_eq_None_iff)
  next
    assume "drop_columns [''propertyzoningdesc''] df = Inr df'"
    then show ?thesis by (rule drop_columns_lookup) simp
  qed
qed

subsection \<open>The whole sequence\<close>

lemma feature_engineering_Inr:
  "feature_engineering fmt df = Inr df' \<longleftrightarrow> run_steps (all_steps fmt) df = Inr df'"
  by (simp add: feature_engineering_def split: sum.splits)

lemma feature_steps_shape: "list_all shape_ok feature_steps"
  by (simp add: feature_steps_def add_ratio_props(1) add_age_of_home_props(1))

lemma encoding_steps_shape: "list_all shape_ok (encoding_steps fmt)"
  by (simp add: encoding_steps_def encode_top_minus1_props(1) encode_top_other_props(1)
      get_dummies_shape drop_zoning_props(1))

lemma all_steps_shape: "shape_ok (run_steps (all_steps fmt))"
  by (rule shape_ok_run_steps)
    (simp add: all_steps_def fix_room_count_props(1) clean_garage_sqft_props(1)
      feature_steps_shape add_multi_unit_props(1) add_has_garage_props(1) encoding_steps_shape)

lemma feature_steps_provenance: "list_all provenance feature_steps"
  by (simp add: feature_steps_def add_ratio_props(2) add_age_of_home_props(2) engineered_def)

lemma encoding_steps_provenance: "list_all provenance (encoding_steps fmt)"
  by (simp add: encoding_steps_def encode_top_minus1_props(2) encode_top_other_props(2)
      get_dummies_provenance drop_zoning_props(2))

lemma all_steps_provenance: "provenance (run_steps (all_steps fmt))"
  by (rule provenance_run_steps)
    (simp add: all_steps_def fix_room_count_props(2) clean_garage_sqft_props(2)
      feature_steps_provenance add_multi_unit_props(2) add_has_garage_props(2)
      encoding_steps_provenance)

subsection \<open>The example\<close>

lemma sample_wf: "wf sample"
  by (simp add: wf_def sample_def col_len_def)

lemma sample_ok: "feature_engineering whole_str sample = Inr sample_out"
  by code_simp


subsection \<open>Following a column through the sequence\<close>

lemma all_steps_eq:
  "all_steps fmt =
     [fix_room_count, clean_garage_sqft,
      add_ratio ''price_per_sqft'' ''taxvaluedollarcnt'' ''calculatedfinishedsquarefeet'',
      add_age_of_home,
      add_ratio ''bath_per_bed'' ''bathroomcnt'' ''bedroomcnt'',
      add_ratio ''rooms_per_sqft'' ''roomcnt_fixed'' ''calculatedfinishedsquarefeet'',
      add_ratio ''garage_sqft_ratio'' ''garagetotalsqft'' ''calculatedfinishedsquarefeet'',
      add_multi_unit, add_has_garage,
      encode_top_minus1 fmt (''regionidcity'', 50),
      encode_top_minus1 fmt (''regionidzip'', 50),
      encode_top_minus1 fmt (''regionidneighborhood'', 50),
      encode_top_other fmt ''propertycountylandusecode'' 15 ''propertycountylanduse_top'',
      encode_top_other fmt ''propertylandusetypeid'' 5 ''propertylandusetype_top'',
      get_dummies fmt low_card, drop_zoning]"
  by (simp add: all_steps_def feature_steps_def encoding_steps_def)

lemma run_steps_split:
  assumes "run_steps (ss @ ts) df = Inr df'"
  shows "\<exists>d. run_steps ss df = Inr d \<and> run_steps ts d = Inr df'"
  using assms by (simp add: run_steps_append bind_res_Inr)

lemma step_at:
  assumes "run_steps ss df = Inr df'" and "k < length ss"
  shows "\<exists>d0 d1. run_steps (take k ss) df = Inr d0 \<and> (ss ! k) d0 = Inr d1
           \<and> run_steps (drop (Suc k) ss) d1 = Inr df'"
proof -
  from assms(2) have "ss = take k ss @ (ss ! k) # drop (Suc k) ss"
    by (simp add: id_take_nth_drop)
  with assms(1) have "run_steps (take k ss @ (ss ! k) # drop (Suc k) ss) df = Inr df'"
    by simp
  from run_steps_split [OF this] obtain d0
    where d0: "run_steps (take k ss) df = Inr d0"
      and "run_steps ((ss ! k) # drop (Suc k) ss) d0 = Inr df'"
    by blast
  then obtain d1 where "(ss ! k) d0 = Inr d1" "run_steps (drop (Suc k) ss) d1 = Inr df'"
    by (auto simp: run_steps_Cons bind_res_Inr)
  with d0 show ?thesis by blast
qed

lemma kept:
  assumes "run_steps ss d = Inr df'" and "list_all (keeps m) ss"
  shows "map_of (cols df') m = map_of (cols d) m"
  using keepsD [OF keeps_run_steps [OF assms(2)] assms(1)] .

lemma get_dummies_low_card_keeps:
  assumes "m \<notin> set low_card" and "\<not> (\<exists>p\<in>set low_card. prefix (p @ ''_'') m)"
  shows "keeps m (get_dummies fmt low_card)"
  using assms by (rule get_dummies_keeps)

lemmas keeps_steps =
  fix_room_count_props(3) clean_garage_sqft_props(3) add_ratio_props(3)
  add_age_of_home_props(3) add_multi_unit_props(3) add_has_garage_props(3)
  encode_top_minus1_props(3) encode_top_other_props(3) get_dummies_low_card_keeps
  get_dummies_low_card_keeps [unfolded low_card_def] drop_zoning_props(3)

lemma num_col_Inr:
  "num_col n df = Inr xs \<longleftrightarrow> (\<exists>c. map_of (cols df) n = Some c \<and> as_num c = Inr xs)"
  by (simp add: num_col_def bind_res_Inr get_col_Inr)



subsection \<open>The columns that the steps write\<close>

lemma multi_unit_column:
  assumes "feature_engineering fmt df = Inr df'"
  shows "\<exists>us. num_col ''unitcnt'' df = Inr us
           \<and> map_of (cols df') ''multi_unit'' = Some (NumCol (map multi_unit us))"
proof -
  from assms have r: "run_steps (all_steps fmt) df = Inr df'"
    by (simp add: feature_engineering_Inr)
  from step_at [OF r, of 7] obtain d0 d1
    where d0: "run_steps (take 7 (all_steps fmt)) df = Inr d0"
      and s: "add_multi_unit d0 = Inr d1"
      and d1: "run_steps (drop 8 (all_steps fmt)) d1 = Inr df'"
    by (auto simp: all_steps_eq)
  have k0: "map_of (cols d0) ''unitcnt'' = map_of (cols df) ''unitcnt''"
    by (rule kept [OF d0]) (simp add: all_steps_eq keeps_steps)
  have k1: "map_of (cols df') ''multi_unit'' = map_of (cols d1) ''multi_unit''"
    by (rule kept [OF d1]) (simp add: all_steps_eq keeps_steps low_card_def)
  from add_multi_unit_Inr [OF s] obtain c us
    where c: "get_col ''unitcnt'' d0 = Inr c" "as_num c = Inr us"
      and w: "set_col ''multi_unit'' (NumCol (map multi_unit us)) d0 = Inr d1"
    by blast
  from c k0 have "num_col ''unitcnt'' df = Inr us"
    by (simp add: num_col_Inr get_col_Inr)
  moreover from set_col_lookup [OF w] k1
  have "map_of (cols df') ''multi_unit'' = Some (NumCol (map multi_unit us))"
    by simp
  ultimately show ?thesis by simp
qed



















section \<open>Binary flags\<close>

text \<open>
  Claim C10. For every row whose \<^verbatim>\<open>unitcnt\<close> is missing, the transformation sets
  \<^verbatim>\<open>multi_unit\<close> to 0: the comparison \<^verbatim>\<open>unitcnt > 1\<close> is false on a missing value. Here
  \<open>us\<close> are the unit counts of the input table and \<open>ms\<close> the column \<^verbatim>\<open>multi_unit\<close> of the
  result.
\<close>

theorem missing_unitcnt_not_multi_unit:
  assumes "feature_engineering fmt df = Inr df'"
  shows "\<exists>us ms. num_col ''unitcnt'' df = Inr us
           \<and> map_of (cols df') ''multi_unit'' = Some (NumCol ms)
           \<and> length ms = length us
           \<and> (\<forall>i<length us. us ! i = NaN \<longrightarrow> ms ! i = Fin 0)"
proof -
  from multi_unit_column [OF assms] obtain us
    where "num_col ''unitcnt'' df = Inr us"
      and "map_of (cols df') ''multi_unit'' = Some (NumCol (map multi_unit us))"
    by blast
  moreover have "\<forall>i<length us. us ! i = NaN \<longrightarrow> map multi_unit us ! i = Fin 0"
    by (simp add: multi_unit_def of_bool_int_def)
  ultimately show ?thesis by simp
qed

theorem missing_unitcnt_not_multi_unit_witness:
  "feature_engineering whole_str sample = Inr sample_out
     \<and> num_col ''unitcnt'' sample = Inr [NaN, Fin 2, Fin 1, Fin 1, Fin 3]
     \<and> map_of (cols sample_out) ''multi_unit'' = Some (NumCol [Fin 0, Fin 1, Fin 0, Fin 0, Fin 1])"
  using missing_unitcnt_not_multi_unit [OF sample_ok] sample_ok
  by (simp add: sample_def sample_out_def num_col_def get_col_def as_num_def)




section \<open>Garage area\<close>




section \<open>Derived features\<close>





section \<open>Room count repair\<close>




section \<open>Row count\<close>

text \<open>
  Claim C9. For every input table, the transformation keeps the number of rows: when
  \<^verbatim>\<open>feature_engineering\<close> returns, the result has as many rows as the input, and every
  column of the result has that many cells; no step filters or adds a row.
\<close>

theorem transform_preserves_row_count:
  assumes "wf df" and "feature_engineering fmt df = Inr df'"
  shows "nrows df' = nrows df \<and> (\<forall>(n, c)\<in>set (cols df'). col_len c = nrows df)"
proof -
  from assms(2) have r: "run_steps (all_steps fmt) df = Inr df'"
    by (simp add: feature_engineering_Inr)
  from shape_okD [OF all_steps_shape r] assms(1) have "nrows df' = nrows df" "wf df'"
    by simp_all
  then show ?thesis by (simp add: wf_def list_all_iff)
qed

theorem transform_preserves_row_count_witness:
  "wf sample \<and> feature_engineering whole_str sample = Inr sample_out
     \<and> nrows sample_out = 5 \<and> list_all (\<lambda>(n, c). col_len c = 5) (cols sample_out)"
  using transform_preserves_row_count [OF sample_wf sample_ok] sample_wf sample_ok
  by (simp add: sample_def list_all_iff)

end
